theory Spec2Isabelle
  imports Complex_Main "HOL-Library.AList"
begin

section \<open>Values of the platform\<close>

text \<open>
  A JavaScript value as \<open>JSON.parse\<close> builds it. A number carries its numeric value; the
  router only ever asks whether it is zero. An object is its property table; a read of a
  property that is not there gives \<open>undefined\<close>, which is \<open>None\<close> below.
\<close>

datatype json =
    JNull
  | JBool bool
  | JNumber real
  | JString string
  | JArray "json list"
  | JObject "(string \<times> json) list"

text \<open>Truthiness of a value, as \<open>!v\<close> and \<open>v || d\<close> test it; \<open>undefined\<close> is falsy.\<close>

fun truthy :: "json \<Rightarrow> bool" where
  "truthy JNull = False"
| "truthy (JBool b) = b"
| "truthy (JNumber x) = (x \<noteq> 0)"
| "truthy (JString s) = (s \<noteq> [])"
| "truthy (JArray xs) = True"
| "truthy (JObject kvs) = True"

definition truthy_opt :: "json option \<Rightarrow> bool" where
  "truthy_opt v = (case v of None \<Rightarrow> False | Some x \<Rightarrow> truthy x)"

text \<open>A name between single quotes, as the platform's error messages print it.\<close>

definition quoted :: "string \<Rightarrow> string" where
  "quoted name = CHR 0x27 # name @ [CHR 0x27]"

text \<open>
  \<open>event.clientName\<close> and \<open>event.action\<close>: a property read. On \<open>null\<close> it throws a
  TypeError (\<open>Inl\<close> the message); on a boolean, a number, a string or an array neither
  name is defined, so the read gives \<open>undefined\<close>.
\<close>

fun read_prop :: "string \<Rightarrow> json \<Rightarrow> string + json option" where
  "read_prop name JNull =
     Inl (''Cannot read properties of null (reading '' @ quoted name @ '')'')"
| "read_prop name (JObject kvs) = Inr (map_of kvs name)"
| "read_prop name v = Inr None"

text \<open>
  A template literal converts an interpolated value to a string, and that conversion can
  throw. For a parsed object it looks up \<open>toString\<close> and then \<open>valueOf\<close>: an own
  \<open>toString\<close> property is parsed data, never a function, and is skipped; \<open>valueOf\<close>,
  own or inherited, yields no primitive; so an object with an own \<open>toString\<close> property
  throws a TypeError, and one without it prints through the inherited function. An array
  joins the conversions of its elements (\<open>null\<close> prints as the empty string), so it
  throws when an element does. \<open>null\<close>, booleans, numbers and strings print.
\<close>

fun toString_throws :: "json \<Rightarrow> bool"
  and join_throws :: "json list \<Rightarrow> bool" where
  "toString_throws (JObject kvs) = (map_of kvs ''toString'' \<noteq> None)"
| "toString_throws (JArray xs) = join_throws xs"
| "toString_throws v = False"
| "join_throws [] = False"
| "join_throws (x # xs) = (toString_throws x \<or> join_throws xs)"

definition cannot_convert :: string where
  "cannot_convert = ''Cannot convert object to primitive value''"

section \<open>Console, transports and timers\<close>

text \<open>
  The lines written with \<open>console.log\<close>, one constructor for each call site, carrying the
  values the template interpolates (the constant pod prefix is left out).
\<close>

datatype log_line =
    DisconnectedByHandler string
  | RequestError string string
  | ResponseError string string
  | HeartbeatFailed string
  | HeartbeatSent string
  | HeartbeatError string string
  | CannotSend string
  | WriteFailed string
  | EventSent nat string json
  | WriteError string string
  | Closing string
  | EndError string string
  | ForcedEviction string
  | Registered string string nat
  | Removed string nat
  | MaxAttemptsReached
  | ReconnectingIn int int
  | Received string string
  | InvalidMessage
  | HandlingError string
  | NotOnThisPod "json option"
  | ConnectionNotFound "json option"
  | SendFailed "json option"
  | Delivered "json option"

text \<open>
  What is handed to \<open>response.write\<close>: the keepalive comment
  \<open>: heartbeat <time>\<close> or the frame \<open>data: <JSON.stringify(event)>\<close>.
\<close>

datatype frame = HeartbeatFrame int | DataFrame json

text \<open>\<open>response.write\<close> returns true, returns false, or throws.\<close>

datatype write_outcome = WriteTrue | WriteFalse | WriteThrows string

text \<open>
  A response object of the HTTP server. The entry only calls \<open>write\<close> and \<open>end\<close> on it.
  \<open>writeCalls\<close> lists every frame passed to \<open>write\<close>, oldest first, and \<open>endCalls\<close>
  counts the calls of \<open>end\<close>. How the socket answers is the environment's choice:
  \<open>writeOutcome k\<close> is the answer to the call made after \<open>k\<close> earlier ones, and
  \<open>endOutcome k\<close> is \<open>Some msg\<close> when that call of \<open>end\<close> throws.
\<close>

record transport =
  writeCalls :: "frame list"
  endCalls :: nat
  writeOutcome :: "nat \<Rightarrow> write_outcome"
  endOutcome :: "nat \<Rightarrow> string option"

section \<open>Connection entries and the registry\<close>

text \<open>
  The fields of class \<open>ConnectionEntry\<close>. \<open>response\<close> is a reference to a response
  object, \<open>heartbeatInterval\<close> the handle \<open>setInterval\<close> returned or \<open>null\<close>, and
  \<open>registry\<close> says whether the entry holds the registry (the module exports one
  instance, and \<open>register\<close> passes it to every entry it builds). Times are milliseconds.
\<close>

record ConnectionEntry =
  clientName :: string
  response :: nat
  podName :: string
  registry :: bool
  connectedAt :: int
  lastActivity :: int
  heartbeatInterval :: "nat option"
  eventCount :: nat
  isAlive :: bool

text \<open>
  The process: the objects by reference (\<open>heap\<close>, \<open>nextRef\<close> the next fresh reference),
  the registry's \<open>Map\<close> in insertion order (\<open>connections\<close>), the response objects, the
  running intervals with the entry whose heartbeat each one drives, the handles passed
  to \<open>clearInterval\<close>, and the console.
\<close>

record state =
  heap :: "nat \<Rightarrow> ConnectionEntry"
  nextRef :: nat
  connections :: "(string \<times> nat) list"
  transports :: "nat \<Rightarrow> transport"
  timers :: "(nat \<times> nat) list"
  nextTimer :: nat
  clearIntervalCalls :: "nat list"
  console :: "log_line list"

definition console_log :: "log_line \<Rightarrow> state \<Rightarrow> state" where
  "console_log l s = s\<lparr>console := console s @ [l]\<rparr>"

definition update_entry :: "nat \<Rightarrow> (ConnectionEntry \<Rightarrow> ConnectionEntry) \<Rightarrow> state \<Rightarrow> state" where
  "update_entry ref f s = s\<lparr>heap := (heap s)(ref := f (heap s ref))\<rparr>"

definition response_write :: "nat \<Rightarrow> frame \<Rightarrow> state \<Rightarrow> write_outcome \<times> state" where
  "response_write r fr s =
     (let t = transports s r
      in (writeOutcome t (length (writeCalls t)),
          s\<lparr>transports := (transports s)(r := t\<lparr>writeCalls := writeCalls t @ [fr]\<rparr>)\<rparr>))"

definition response_end :: "nat \<Rightarrow> state \<Rightarrow> string option \<times> state" where
  "response_end r s =
     (let t = transports s r
      in (endOutcome t (endCalls t),
          s\<lparr>transports := (transports s)(r := t\<lparr>endCalls := Suc (endCalls t)\<rparr>)\<rparr>))"

definition setInterval :: "nat \<Rightarrow> state \<Rightarrow> nat \<times> state" where
  "setInterval ref s =
     (let h = nextTimer s
      in (h, s\<lparr>timers := timers s @ [(h, ref)], nextTimer := Suc h\<rparr>))"

definition clearInterval :: "nat \<Rightarrow> state \<Rightarrow> state" where
  "clearInterval h s =
     s\<lparr>timers := AList.delete h (timers s), clearIntervalCalls := clearIntervalCalls s @ [h]\<rparr>"

subsection \<open>ConnectionRegistry: lookups and remove\<close>

definition get :: "string \<Rightarrow> state \<Rightarrow> nat option" where
  "get name s = map_of (connections s) name"

definition has :: "string \<Rightarrow> state \<Rightarrow> bool" where
  "has name s = (map_of (connections s) name \<noteq> None)"

definition count :: "state \<Rightarrow> nat" where
  "count s = length (connections s)"

definition remove_registry :: "string \<Rightarrow> state \<Rightarrow> bool \<times> state" where
  "remove_registry name s =
     (let existed = has name s;
          s1 = s\<lparr>connections := AList.delete name (connections s)\<rparr>
      in if existed then (True, console_log (Removed name (count s1)) s1) else (False, s1))"

subsection \<open>ConnectionEntry\<close>

text \<open>
  \<open>close\<close>: guarded by \<open>isAlive\<close>; marks the entry dead, clears the interval when there
  is one, ends the response (a throw is caught and logged) and removes the entry's name
  from the registry.
\<close>

definition close :: "nat \<Rightarrow> state \<Rightarrow> state" where
  "close ref s =
     (let e = heap s ref
      in if \<not> isAlive e then s
         else
           let s1 = console_log (Closing (clientName e)) s;
               s2 = update_entry ref (\<lambda>x. x\<lparr>isAlive := False\<rparr>) s1;
               s3 = (case heartbeatInterval e of
                       None \<Rightarrow> s2
                     | Some h \<Rightarrow> update_entry ref (\<lambda>x. x\<lparr>heartbeatInterval := None\<rparr>)
                                  (clearInterval h s2));
               s4 = (case response_end (response e) s3 of
                       (None, s') \<Rightarrow> s'
                     | (Some msg, s') \<Rightarrow> console_log (EndError (clientName e) msg) s')
           in if registry e then snd (remove_registry (clientName e) s4) else s4)"

text \<open>
  The constructor: the two \<open>new Date()\<close> of one construction read the clock at \<open>now\<close>;
  \<open>startHeartbeat\<close> stores the handle of a new interval. The listeners that
  \<open>setupDisconnectHandlers\<close> installs are \<open>cleanup\<close>, \<open>onRequestError\<close> and
  \<open>onResponseError\<close> below; the interval's callback is \<open>heartbeat\<close>.
\<close>

definition new_ConnectionEntry ::
    "int \<Rightarrow> string \<Rightarrow> nat \<Rightarrow> string \<Rightarrow> bool \<Rightarrow> state \<Rightarrow> nat \<times> state" where
  "new_ConnectionEntry now name r pod reg s =
     (let ref = nextRef s;
          e = \<lparr>clientName = name, response = r, podName = pod, registry = reg,
               connectedAt = now, lastActivity = now, heartbeatInterval = None,
               eventCount = 0, isAlive = True\<rparr>;
          s1 = s\<lparr>heap := (heap s)(ref := e), nextRef := Suc ref\<rparr>;
          (h, s2) = setInterval ref s1
      in (ref, update_entry ref (\<lambda>x. x\<lparr>heartbeatInterval := Some h\<rparr>) s2))"

definition cleanup :: "nat \<Rightarrow> state \<Rightarrow> state" where
  "cleanup ref s =
     (let e = heap s ref
      in if isAlive e then close ref (console_log (DisconnectedByHandler (clientName e)) s)
         else s)"

definition onRequestError :: "string \<Rightarrow> nat \<Rightarrow> state \<Rightarrow> state" where
  "onRequestError msg ref s =
     cleanup ref (console_log (RequestError (clientName (heap s ref)) msg) s)"

definition onResponseError :: "string \<Rightarrow> nat \<Rightarrow> state \<Rightarrow> state" where
  "onResponseError msg ref s =
     cleanup ref (console_log (ResponseError (clientName (heap s ref)) msg) s)"

text \<open>The body of the heartbeat interval, run at time \<open>now\<close>.\<close>

definition heartbeat :: "int \<Rightarrow> nat \<Rightarrow> state \<Rightarrow> state" where
  "heartbeat now ref s =
     (let e = heap s ref
      in if \<not> isAlive e then s
         else
           (case response_write (response e) (HeartbeatFrame now) s of
              (WriteThrows msg, s1) \<Rightarrow>
                close ref (console_log (HeartbeatError (clientName e) msg) s1)
            | (WriteFalse, s1) \<Rightarrow> close ref (console_log (HeartbeatFailed (clientName e)) s1)
            | (WriteTrue, s1) \<Rightarrow> console_log (HeartbeatSent (clientName e)) s1))"

text \<open>
  \<open>sendEvent\<close>, run at time \<open>now\<close>, on a parsed value. After a write that returned true
  the counter and the activity time are updated, and then the log line interpolates
  \<open>event.action || 'event'\<close>, still inside the \<open>try\<close>: when the read of \<open>action\<close>
  throws (on \<open>null\<close>) or the conversion of the value to a string throws, the \<open>catch\<close>
  prints the error, closes the entry and the call returns false.
\<close>

definition sendEvent :: "int \<Rightarrow> nat \<Rightarrow> json \<Rightarrow> state \<Rightarrow> bool \<times> state" where
  "sendEvent now ref event s =
     (let e = heap s ref
      in if \<not> isAlive e then (False, console_log (CannotSend (clientName e)) s)
         else
           (case response_write (response e) (DataFrame event) s of
              (WriteThrows msg, s1) \<Rightarrow>
                (False, close ref (console_log (WriteError (clientName e) msg) s1))
            | (WriteFalse, s1) \<Rightarrow>
                (False, close ref (console_log (WriteFailed (clientName e)) s1))
            | (WriteTrue, s1) \<Rightarrow>
                (let s2 = update_entry ref
                            (\<lambda>x. x\<lparr>eventCount := Suc (eventCount x), lastActivity := now\<rparr>) s1
                 in case read_prop ''action'' event of
                      Inl msg \<Rightarrow>
                        (False, close ref (console_log (WriteError (clientName e) msg) s2))
                    | Inr a \<Rightarrow>
                        (let shown = (case a of
                                        None \<Rightarrow> JString ''event''
                                      | Some v \<Rightarrow> if truthy v then v else JString ''event'')
                         in if toString_throws shown
                            then (False, close ref
                                    (console_log (WriteError (clientName e) cannot_convert) s2))
                            else (True, console_log
                                    (EventSent (Suc (eventCount e)) (clientName e) shown) s2)))))"

definition updateActivity :: "int \<Rightarrow> nat \<Rightarrow> state \<Rightarrow> state" where
  "updateActivity now ref s = update_entry ref (\<lambda>x. x\<lparr>lastActivity := now\<rparr>) s"

record stats =
  stats_clientName :: string
  stats_podName :: string
  stats_connectedAt :: int
  stats_lastActivity :: int
  stats_eventCount :: nat
  stats_isAlive :: bool
  stats_uptime :: int

definition getStats :: "int \<Rightarrow> nat \<Rightarrow> state \<Rightarrow> stats" where
  "getStats now ref s =
     (let e = heap s ref
      in \<lparr>stats_clientName = clientName e, stats_podName = podName e,
          stats_connectedAt = connectedAt e, stats_lastActivity = lastActivity e,
          stats_eventCount = eventCount e, stats_isAlive = isAlive e,
          stats_uptime = (now - connectedAt e) div 1000\<rparr>)"

subsection \<open>ConnectionRegistry: register and updateActivity\<close>

text \<open>
  \<open>register\<close>: \<open>has(clientName)\<close> holds exactly when \<open>get(clientName)\<close> is an entry, so
  the eviction branch is the \<open>Some\<close> case of the lookup.
\<close>

definition register :: "int \<Rightarrow> string \<Rightarrow> nat \<Rightarrow> string \<Rightarrow> state \<Rightarrow> nat \<times> state" where
  "register now name r pod s =
     (let s1 = (case get name s of
                  None \<Rightarrow> s
                | Some oldConnection \<Rightarrow>
                    (let s' = close oldConnection (console_log (ForcedEviction name) s)
                     in s'\<lparr>connections := AList.delete name (connections s')\<rparr>));
          (connection, s2) = new_ConnectionEntry now name r pod True s1;
          s3 = s2\<lparr>connections := AList.update name connection (connections s2)\<rparr>
      in (connection, console_log (Registered name pod (count s3)) s3))"

definition registry_updateActivity :: "int \<Rightarrow> string \<Rightarrow> state \<Rightarrow> state" where
  "registry_updateActivity now name s =
     (case get name s of None \<Rightarrow> s | Some connection \<Rightarrow> updateActivity now connection s)"

section \<open>RedisSubscriber\<close>

record RedisSubscriber =
  isConnected :: bool
  reconnectAttempts :: nat
  maxReconnectAttempts :: int

definition new_RedisSubscriber :: RedisSubscriber where
  "new_RedisSubscriber =
     \<lparr>isConnected = False, reconnectAttempts = 0, maxReconnectAttempts = 10\<rparr>"

text \<open>
  The \<open>retryStrategy\<close> handed to the client library, with the source's \<open>times\<close>
  written \<open>attempt\<close>; \<open>null\<close> is \<open>None\<close>.
\<close>

definition retryStrategy :: "RedisSubscriber \<Rightarrow> int \<Rightarrow> state \<Rightarrow> int option \<times> state" where
  "retryStrategy this attempt s =
     (if attempt > maxReconnectAttempts this then (None, console_log MaxAttemptsReached s)
      else
        (let delay = min (attempt * 100) 2000
         in (Some delay, console_log (ReconnectingIn delay attempt) s)))"

text \<open>
  \<open>connections.has(v)\<close> and \<open>connections.get(v)\<close> for a value read from a record. The
  keys of the registry are strings and a \<open>Map\<close> compares keys without conversion, so a
  value that is not a string (or \<open>undefined\<close>) is no key.
\<close>

definition has_key :: "json option \<Rightarrow> state \<Rightarrow> bool" where
  "has_key v s = (case v of Some (JString name) \<Rightarrow> has name s | _ \<Rightarrow> False)"

definition get_key :: "json option \<Rightarrow> state \<Rightarrow> nat option" where
  "get_key v s = (case v of Some (JString name) \<Rightarrow> get name s | _ \<Rightarrow> None)"

text \<open>
  \<open>routeToClient\<close>, run at time \<open>now\<close>. The first component of the result is the
  message of an error thrown out of the function, \<open>None\<close> when it returns: destructuring
  \<open>null\<close> throws, and so does the line for a client that is not on this pod when the
  conversion of \<open>clientName\<close> to a string throws (\<open>undefined\<close> prints). In the other
  lines \<open>clientName\<close> is a key of the registry, a string.
\<close>

definition template_throws :: "json option \<Rightarrow> bool" where
  "template_throws v = (case v of None \<Rightarrow> False | Some x \<Rightarrow> toString_throws x)"

definition routeToClient :: "int \<Rightarrow> json \<Rightarrow> state \<Rightarrow> string option \<times> state" where
  "routeToClient now event s =
     (case read_prop ''clientName'' event of
        Inl msg \<Rightarrow>
          (Some (''Cannot destructure property '' @ quoted ''clientName'' @ '' of '' @
                 quoted ''event'' @ '' as it is null.''), s)
      | Inr c \<Rightarrow>
          if \<not> has_key c s
          then (if template_throws c then (Some cannot_convert, s)
                else (None, console_log (NotOnThisPod c) s))
          else
            (case get_key c s of
               None \<Rightarrow> (None, console_log (ConnectionNotFound c) s)
             | Some connection \<Rightarrow>
                 (case sendEvent now connection event s of
                    (False, s1) \<Rightarrow> (None, console_log (SendFailed c) s1)
                  | (True, s1) \<Rightarrow> (None, console_log (Delivered c) s1))))"

text \<open>
  \<open>handleMessage\<close>. \<open>JSON_parse\<close> is the platform's parser: \<open>Inl\<close> the message of the
  SyntaxError it throws, \<open>Inr\<close> the value it returns. \<open>handleMessage_try\<close> is the \<open>try\<close>
  block, ending with the thrown message or \<open>None\<close>; \<open>handleMessage\<close> adds the \<open>catch\<close>.
\<close>

definition handleMessage_try ::
    "(string \<Rightarrow> string + json) \<Rightarrow> int \<Rightarrow> string \<Rightarrow> string \<Rightarrow> state \<Rightarrow> string option \<times> state" where
  "handleMessage_try JSON_parse now channel message s =
     (let s1 = console_log (Received channel message) s
      in case JSON_parse message of
           Inl msg \<Rightarrow> (Some msg, s1)
         | Inr event \<Rightarrow>
             (case read_prop ''clientName'' event of
                Inl msg \<Rightarrow> (Some msg, s1)
              | Inr c \<Rightarrow>
                  if \<not> truthy_opt c then (None, console_log InvalidMessage s1)
                  else routeToClient now event s1))"

definition handleMessage ::
    "(string \<Rightarrow> string + json) \<Rightarrow> int \<Rightarrow> string \<Rightarrow> string \<Rightarrow> state \<Rightarrow> string option \<times> state" where
  "handleMessage JSON_parse now channel message s =
     (case handleMessage_try JSON_parse now channel message s of
        (Some msg, s1) \<Rightarrow> (None, console_log (HandlingError msg) s1)
      | (None, s1) \<Rightarrow> (None, s1))"

section \<open>Auxiliary definitions\<close>

text \<open>The eviction block that opens \<open>register\<close>, named for the proofs.\<close>

definition evict :: "string \<Rightarrow> state \<Rightarrow> state" where
  "evict name s =
     (case get name s of
        None \<Rightarrow> s
      | Some oldConnection \<Rightarrow>
          (let s' = close oldConnection (console_log (ForcedEviction name) s)
           in s'\<lparr>connections := AList.delete name (connections s')\<rparr>))"

text \<open>
  A process at start, for the examples: no entry, no timer, an empty console, and
  response objects that answer every \<open>write\<close> with \<open>w\<close> and whose \<open>end\<close> returns.
  \<open>one_client w name\<close> is that process after one registration, of response 7.
\<close>

definition no_entry :: ConnectionEntry where
  "no_entry =
     \<lparr>clientName = [], response = 0, podName = [], registry = False, connectedAt = 0,
      lastActivity = 0, heartbeatInterval = None, eventCount = 0, isAlive = False\<rparr>"

definition fresh_transport :: "write_outcome \<Rightarrow> transport" where
  "fresh_transport w =
     \<lparr>writeCalls = [], endCalls = 0, writeOutcome = (\<lambda>k. w), endOutcome = (\<lambda>k. None)\<rparr>"

definition initial_state :: "write_outcome \<Rightarrow> state" where
  "initial_state w =
     \<lparr>heap = (\<lambda>ref. no_entry), nextRef = 0, connections = [],
      transports = (\<lambda>r. fresh_transport w), timers = [], nextTimer = 0,
      clearIntervalCalls = [], console = []\<rparr>"

definition one_client :: "write_outcome \<Rightarrow> string \<Rightarrow> state" where
  "one_client w name = snd (register 1000 name 7 ''local-pod'' (initial_state w))"

text \<open>
  Every alive entry holds the registry. The process at start has the property and every
  operation keeps it (section \<open>Alive entries hold the registry\<close>).
\<close>

definition entries_hold_registry :: "state \<Rightarrow> bool" where
  "entries_hold_registry s = (\<forall>ref. isAlive (heap s ref) \<longrightarrow> registry (heap s ref))"

text \<open>The console line of the failure branches of \<open>sendEvent\<close>.\<close>

definition write_failure_line :: "string \<Rightarrow> write_outcome \<Rightarrow> log_line" where
  "write_failure_line name w =
     (case w of WriteThrows msg \<Rightarrow> WriteError name msg | _ \<Rightarrow> WriteFailed name)"

text \<open>
  A stand-in for the platform's parser on the messages of the examples (the messages are
  written without their double quotes); every other message is a syntax error.
\<close>

definition parse_example :: "string \<Rightarrow> string + json" where
  "parse_example message =
     (if message = ''{clientName:B,action:x}''
      then Inr (JObject [(''clientName'', JString ''B''), (''action'', JString ''x'')])
      else if message = ''{action:x}''
      then Inr (JObject [(''action'', JString ''x'')])
      else if message = ''{clientName:}''
      then Inr (JObject [(''clientName'', JString [])])
      else if message = ''null'' then Inr JNull
      else Inl ''Unexpected token'')"

text \<open>
  A record that parses from the bus with a string \<open>clientName\<close> and an \<open>action\<close> that
  has its own \<open>toString\<close> property, and a stand-in for the parser on its message.
\<close>

definition unprintable_record :: json where
  "unprintable_record =
     JObject [(''clientName'', JString ''A''),
              (''action'', JObject [(''toString'', JNumber 0)])]"

definition parse_unprintable :: "string \<Rightarrow> string + json" where
  "parse_unprintable message =
     (if message = ''{clientName:A,action:{toString:0}}'' then Inr unprintable_record
      else Inl ''Unexpected token'')"

section \<open>Basic facts about the operations\<close>

lemma close_dead: "\<not> isAlive (heap s ref) \<Longrightarrow> close ref s = s"
  by (simp add: close_def)

lemma snd_remove_registry:
  "snd (remove_registry name s) =
     (if has name s
      then console_log (Removed name (length (AList.delete name (connections s))))
             (s\<lparr>connections := AList.delete name (connections s)\<rparr>)
      else s\<lparr>connections := AList.delete name (connections s)\<rparr>)"
  by (simp add: remove_registry_def Let_def count_def console_log_def)

lemma heap_remove_registry [simp]: "heap (snd (remove_registry name s)) = heap s"
  by (simp add: snd_remove_registry console_log_def)

lemma transports_remove_registry [simp]:
  "transports (snd (remove_registry name s)) = transports s"
  by (simp add: snd_remove_registry console_log_def)

lemma timers_remove_registry [simp]: "timers (snd (remove_registry name s)) = timers s"
  by (simp add: snd_remove_registry console_log_def)

lemma clears_remove_registry [simp]:
  "clearIntervalCalls (snd (remove_registry name s)) = clearIntervalCalls s"
  by (simp add: snd_remove_registry console_log_def)

lemma connections_remove_registry [simp]:
  "connections (snd (remove_registry name s)) = AList.delete name (connections s)"
  by (simp add: snd_remove_registry console_log_def)

lemma get_remove_registry [simp]: "get name (snd (remove_registry name s)) = None"
  by (simp add: get_def AList.delete_conv')

lemmas close_unfold = close_def Let_def update_entry_def console_log_def clearInterval_def
  response_end_def

lemma heap_close:
  "isAlive (heap s ref) \<Longrightarrow>
   heap (close ref s) = (heap s)(ref := (heap s ref)\<lparr>isAlive := False, heartbeatInterval := None\<rparr>)"
  by (auto simp: close_unfold fun_eq_iff split: option.splits prod.splits)

lemma connections_close:
  "isAlive (heap s ref) \<Longrightarrow>
   connections (close ref s) =
     (if registry (heap s ref) then AList.delete (clientName (heap s ref)) (connections s)
      else connections s)"
  by (auto simp: close_unfold split: option.splits prod.splits)

lemma transports_close:
  "isAlive (heap s ref) \<Longrightarrow>
   transports (close ref s) =
     (transports s)(response (heap s ref) :=
        (transports s (response (heap s ref)))
          \<lparr>endCalls := Suc (endCalls (transports s (response (heap s ref))))\<rparr>)"
  by (auto simp: close_unfold split: option.splits prod.splits)

lemma timers_close:
  "isAlive (heap s ref) \<Longrightarrow>
   timers (close ref s) =
     (case heartbeatInterval (heap s ref) of None \<Rightarrow> timers s
      | Some h \<Rightarrow> AList.delete h (timers s))"
  by (auto simp: close_unfold split: option.splits prod.splits)

lemma clears_close:
  "isAlive (heap s ref) \<Longrightarrow>
   clearIntervalCalls (close ref s) =
     clearIntervalCalls s @
       (case heartbeatInterval (heap s ref) of None \<Rightarrow> [] | Some h \<Rightarrow> [h])"
  by (auto simp: close_unfold split: option.splits prod.splits)

lemma console_close:
  "isAlive (heap s ref) \<Longrightarrow>
   console (close ref s) =
     console s @ [Closing (clientName (heap s ref))] @
       (case endOutcome (transports s (response (heap s ref)))
               (endCalls (transports s (response (heap s ref)))) of
          None \<Rightarrow> [] | Some msg \<Rightarrow> [EndError (clientName (heap s ref)) msg]) @
       (if registry (heap s ref) \<and> has (clientName (heap s ref)) s
        then [Removed (clientName (heap s ref))
                (length (AList.delete (clientName (heap s ref)) (connections s)))]
        else [])"
  by (auto simp: close_unfold snd_remove_registry has_def split: option.splits prod.splits)

lemma nexts_close: "nextRef (close ref s) = nextRef s" "nextTimer (close ref s) = nextTimer s"
  by (auto simp: close_unfold snd_remove_registry split: option.splits prod.splits)

lemma close_not_alive: "\<not> isAlive (heap (close ref s) ref)"
  by (cases "isAlive (heap s ref)") (simp_all add: heap_close close_dead)

lemma close_close: "close ref (close ref s) = close ref s"
  by (rule close_dead) (rule close_not_alive)

lemma close_funpow_Suc: "(close ref ^^ Suc N) s = close ref s"
  by (induction N) (simp_all add: close_close)

lemma close_funpow: "0 < N \<Longrightarrow> (close ref ^^ N) s = close ref s"
  by (cases N) (simp_all add: close_funpow_Suc del: funpow.simps)

lemma register_evict:
  "register now name r pod s =
     (let s1 = evict name s; ref = nextRef s1; h = nextTimer s1;
          cs = AList.update name ref (connections s1)
      in (ref,
          s1\<lparr>heap := (heap s1)(ref :=
                 \<lparr>clientName = name, response = r, podName = pod, registry = True,
                  connectedAt = now, lastActivity = now, heartbeatInterval = Some h,
                  eventCount = 0, isAlive = True\<rparr>),
             nextRef := Suc ref, timers := timers s1 @ [(h, ref)], nextTimer := Suc h,
             connections := cs, console := console s1 @ [Registered name pod (length cs)]\<rparr>))"
  by (simp add: register_def evict_def new_ConnectionEntry_def setInterval_def update_entry_def
      console_log_def Let_def count_def split: option.splits)

lemma nextRef_evict: "nextRef (evict name s) = nextRef s"
  by (simp add: evict_def nexts_close console_log_def Let_def split: option.splits)

lemma get_evict: "get name (evict name s) = None"
  by (simp add: evict_def get_def Let_def AList.delete_conv' split: option.splits)

lemma fst_register: "fst (register now name r pod s) = nextRef s"
  by (simp add: register_evict Let_def nextRef_evict)

lemma heap_register_new:
  "heap (snd (register now name r pod s)) (nextRef s) =
     \<lparr>clientName = name, response = r, podName = pod, registry = True,
      connectedAt = now, lastActivity = now,
      heartbeatInterval = Some (nextTimer s),
      eventCount = 0, isAlive = True\<rparr>"
  by (simp add: register_evict Let_def nextRef_evict evict_def nexts_close console_log_def split: option.splits)

lemma nextRef_register: "nextRef (snd (register now name r pod s)) = Suc (nextRef s)"
  by (simp add: register_evict Let_def nextRef_evict)

lemma get_register: "get name (snd (register now name r pod s)) = Some (nextRef s)"
  by (simp add: register_evict Let_def nextRef_evict get_def AList.update_conv')

lemma filter_key_absent:
  "map_of al k = None \<Longrightarrow> filter (\<lambda>kv. fst kv = k) al = []"
  by (induction al) (auto split: if_splits)

lemma filter_key_update_absent:
  "map_of al k = None \<Longrightarrow> filter (\<lambda>kv. fst kv = k) (AList.update k v al) = [(k, v)]"
  by (induction al) (auto split: if_splits)

lemma entries_register:
  "filter (\<lambda>kv. fst kv = name) (connections (snd (register now name r pod s))) =
     [(name, nextRef s)]"
  using get_evict [of name s]
  by (simp add: register_evict Let_def nextRef_evict filter_key_update_absent get_def)

lemma one_client_eq:
  "one_client w name =
     \<lparr>heap = (\<lambda>ref. no_entry)(0 :=
         \<lparr>clientName = name, response = 7, podName = ''local-pod'', registry = True,
          connectedAt = 1000, lastActivity = 1000, heartbeatInterval = Some 0,
          eventCount = 0, isAlive = True\<rparr>),
      nextRef = 1, connections = [(name, 0)],
      transports = (\<lambda>r. fresh_transport w), timers = [(0, 0)], nextTimer = 1,
      clearIntervalCalls = [], console = [Registered name ''local-pod'' 1]\<rparr>"
  by (simp add: one_client_def initial_state_def register_def new_ConnectionEntry_def
      setInterval_def update_entry_def console_log_def get_def has_def count_def Let_def)

lemma heap_register_other:
  "ref \<noteq> nextRef s \<Longrightarrow> heap (snd (register now name r pod s)) ref = heap (evict name s) ref"
  by (simp add: register_evict Let_def nextRef_evict)

lemma transports_register:
  "transports (snd (register now name r pod s)) = transports (evict name s)"
  by (simp add: register_evict Let_def)

lemma connections_register:
  "connections (snd (register now name r pod s)) =
     AList.update name (nextRef s) (connections (evict name s))"
  by (simp add: register_evict Let_def nextRef_evict)

lemma evict_None: "get name s = None \<Longrightarrow> evict name s = s"
  by (simp add: evict_def)

lemma heap_evict_Some:
  "get name s = Some old \<Longrightarrow> isAlive (heap s old) \<Longrightarrow>
   heap (evict name s) = (heap s)(old := (heap s old)\<lparr>isAlive := False, heartbeatInterval := None\<rparr>)"
  by (simp add: evict_def Let_def heap_close console_log_def)

lemma transports_evict_Some:
  "get name s = Some old \<Longrightarrow> isAlive (heap s old) \<Longrightarrow>
   transports (evict name s) =
     (transports s)(response (heap s old) :=
        (transports s (response (heap s old)))
          \<lparr>endCalls := Suc (endCalls (transports s (response (heap s old))))\<rparr>)"
  by (simp add: evict_def Let_def transports_close console_log_def)

lemma connections_evict_single:
  "connections s = [] \<or> connections s = [(name, old)] \<Longrightarrow> connections (evict name s) = []"
  by (cases "isAlive (heap s old)"; cases "registry (heap s old)")
     (auto simp: evict_def Let_def get_def connections_close close_dead console_log_def)

lemma sendEvent_WriteTrue:
  assumes "isAlive (heap s ref)"
    and "writeOutcome (transports s (response (heap s ref)))
           (length (writeCalls (transports s (response (heap s ref))))) = WriteTrue"
    and "read_prop ''action'' event = Inr a"
    and "\<not> toString_throws
             (case a of None \<Rightarrow> JString ''event''
              | Some v \<Rightarrow> if truthy v then v else JString ''event'')"
  shows "sendEvent now ref event s =
     (True,
      s\<lparr>transports := (transports s)(response (heap s ref) :=
           (transports s (response (heap s ref)))
             \<lparr>writeCalls := writeCalls (transports s (response (heap s ref))) @ [DataFrame event]\<rparr>),
        heap := (heap s)(ref := (heap s ref)
           \<lparr>eventCount := Suc (eventCount (heap s ref)), lastActivity := now\<rparr>),
        console := console s @
           [EventSent (Suc (eventCount (heap s ref))) (clientName (heap s ref))
              (case a of None \<Rightarrow> JString ''event''
               | Some v \<Rightarrow> if truthy v then v else JString ''event'')]\<rparr>)"
  using assms
  by (simp add: sendEvent_def response_write_def update_entry_def console_log_def Let_def)

lemma sendEvent_write_fails:
  assumes "isAlive (heap s ref)"
    and "writeOutcome (transports s (response (heap s ref)))
           (length (writeCalls (transports s (response (heap s ref))))) \<noteq> WriteTrue"
  shows "sendEvent now ref event s =
     (False, close ref
        (s\<lparr>transports := (transports s)(response (heap s ref) :=
           (transports s (response (heap s ref)))
             \<lparr>writeCalls := writeCalls (transports s (response (heap s ref))) @ [DataFrame event]\<rparr>),
          console := console s @
            [write_failure_line (clientName (heap s ref))
               (writeOutcome (transports s (response (heap s ref)))
                  (length (writeCalls (transports s (response (heap s ref))))))]\<rparr>))"
  using assms
  by (cases "writeOutcome (transports s (response (heap s ref)))
           (length (writeCalls (transports s (response (heap s ref)))))")
     (simp_all add: sendEvent_def response_write_def console_log_def Let_def
        write_failure_line_def)

lemma routeToClient_unknown:
  assumes "read_prop ''clientName'' event = Inr (Some (JString name))"
    and "get name s = None"
  shows "routeToClient now event s =
     (None, s\<lparr>console := console s @ [NotOnThisPod (Some (JString name))]\<rparr>)"
  using assms
  by (simp add: routeToClient_def has_key_def has_def get_def console_log_def
      template_throws_def)

lemma handleMessage_returns: "fst (handleMessage JSON_parse now channel message s) = None"
  by (simp add: handleMessage_def split: prod.splits option.splits)

section \<open>Alive entries hold the registry\<close>

lemma heap_close_cases:
  "heap (close ref s) = heap s \<or>
   heap (close ref s) = (heap s)(ref := (heap s ref)\<lparr>isAlive := False, heartbeatInterval := None\<rparr>)"
  by (cases "isAlive (heap s ref)") (simp_all add: heap_close close_dead)

lemma hold_initial: "entries_hold_registry (initial_state w)"
  by (simp add: entries_hold_registry_def initial_state_def no_entry_def)

lemma hold_heap_eq: "heap s' = heap s \<Longrightarrow> entries_hold_registry s' = entries_hold_registry s"
  by (simp add: entries_hold_registry_def)

lemma hold_close: "entries_hold_registry s \<Longrightarrow> entries_hold_registry (close ref s)"
  using heap_close_cases [of ref s] by (auto simp: entries_hold_registry_def)

lemma hold_update:
  "entries_hold_registry s \<Longrightarrow> registry (f (heap s ref)) = registry (heap s ref) \<Longrightarrow>
   isAlive (f (heap s ref)) = isAlive (heap s ref) \<Longrightarrow>
   entries_hold_registry (update_entry ref f s)"
  by (auto simp: entries_hold_registry_def update_entry_def)

lemma hold_console_log: "entries_hold_registry (console_log l s) = entries_hold_registry s"
  by (simp add: entries_hold_registry_def console_log_def)

lemma hold_response_write:
  "response_write r fr s = (w, s1) \<Longrightarrow> entries_hold_registry s \<Longrightarrow> entries_hold_registry s1"
  by (auto simp: entries_hold_registry_def response_write_def Let_def)

lemma hold_sendEvent:
  "entries_hold_registry s \<Longrightarrow> entries_hold_registry (snd (sendEvent now ref event s))"
  by (auto simp: sendEvent_def hold_console_log Let_def
      split: prod.splits write_outcome.splits sum.splits
      intro!: hold_close hold_update intro: hold_response_write)

lemma hold_heartbeat:
  "entries_hold_registry s \<Longrightarrow> entries_hold_registry (heartbeat now ref s)"
  by (auto simp: heartbeat_def hold_console_log Let_def
      split: prod.splits write_outcome.splits
      intro!: hold_close intro: hold_response_write)

lemma hold_cleanup: "entries_hold_registry s \<Longrightarrow> entries_hold_registry (cleanup ref s)"
  by (simp add: cleanup_def Let_def hold_close hold_console_log)

lemma hold_updateActivity:
  "entries_hold_registry s \<Longrightarrow> entries_hold_registry (updateActivity now ref s)"
  by (simp add: updateActivity_def hold_update)

lemma hold_evict: "entries_hold_registry s \<Longrightarrow> entries_hold_registry (evict name s)"
  by (auto simp: evict_def Let_def entries_hold_registry_def console_log_def
      split: option.splits
      dest: hold_close [unfolded entries_hold_registry_def, rule_format, rotated])

lemma hold_register:
  "entries_hold_registry s \<Longrightarrow> entries_hold_registry (snd (register now name r pod s))"
  using hold_evict [of s name]
  by (simp add: register_evict Let_def entries_hold_registry_def)

lemma hold_sendEvent_result:
  "sendEvent now ref event s = (b, s1) \<Longrightarrow> entries_hold_registry s \<Longrightarrow>
   entries_hold_registry s1"
  using hold_sendEvent [of s now ref event] by simp

lemma hold_routeToClient:
  "entries_hold_registry s \<Longrightarrow> entries_hold_registry (snd (routeToClient now event s))"
  by (auto simp: routeToClient_def hold_console_log
      split: sum.splits option.splits prod.splits bool.splits
      intro: hold_sendEvent_result)

lemma hold_routeToClient_result:
  "routeToClient now event s = (x, s1) \<Longrightarrow> entries_hold_registry s \<Longrightarrow>
   entries_hold_registry s1"
  using hold_routeToClient [of s now event] by simp

lemma hold_handleMessage:
  "entries_hold_registry s \<Longrightarrow>
   entries_hold_registry (snd (handleMessage JSON_parse now channel message s))"
  by (auto simp: handleMessage_def handleMessage_try_def hold_console_log Let_def
      split: sum.splits option.splits prod.splits if_splits
      dest: hold_routeToClient_result)

section \<open>The claims\<close>

text \<open>
  C1. Two registrations under one name, of responses \<open>T1\<close> and then \<open>T2\<close>: the entry
  built for \<open>T1\<close> is closed by the second registration (dead, its interval handle reset,
  \<open>end\<close> called once more on \<open>T1\<close>), the registry holds exactly one pair for the name,
  and \<open>get\<close> returns the second entry, which wraps \<open>T2\<close> and is alive. Starting from
  an empty registry the count is 1.
\<close>

theorem register_twice:
  assumes "register now1 name T1 pod1 s = (e1, s1)"
    and "register now2 name T2 pod2 s1 = (e2, s2)"
  shows "response (heap s1 e1) = T1 \<and> isAlive (heap s1 e1) \<and> get name s1 = Some e1 \<and>
     \<not> isAlive (heap s2 e1) \<and> response (heap s2 e1) = T1 \<and>
     heartbeatInterval (heap s2 e1) = None \<and>
     endCalls (transports s2 T1) = Suc (endCalls (transports s1 T1)) \<and>
     filter (\<lambda>kv. fst kv = name) (connections s2) = [(name, e2)] \<and>
     get name s2 = Some e2 \<and> e2 \<noteq> e1 \<and>
     response (heap s2 e2) = T2 \<and> isAlive (heap s2 e2) \<and>
     (connections s = [] \<longrightarrow> count s2 = 1)"
proof -
  have e1: "e1 = nextRef s" and s1: "s1 = snd (register now1 name T1 pod1 s)"
    using assms(1) fst_register [of now1 name T1 pod1 s] by simp_all
  have n1: "nextRef s1 = Suc e1"
    by (simp add: s1 e1 nextRef_register)
  have e2: "e2 = Suc e1" and s2: "s2 = snd (register now2 name T2 pod2 s1)"
    using assms(2) fst_register [of now2 name T2 pod2 s1] n1 by simp_all
  have h1: "heap s1 e1 =
     \<lparr>clientName = name, response = T1, podName = pod1, registry = True,
      connectedAt = now1, lastActivity = now1, heartbeatInterval = Some (nextTimer s),
      eventCount = 0, isAlive = True\<rparr>"
    by (simp add: s1 e1 heap_register_new)
  have g1: "get name s1 = Some e1"
    by (simp add: s1 e1 get_register)
  have alive1: "isAlive (heap s1 e1)"
    by (simp add: h1)
  have old: "heap s2 e1 = (heap s1 e1)\<lparr>isAlive := False, heartbeatInterval := None\<rparr>"
    by (simp add: s2 heap_register_other n1 heap_evict_Some [OF g1 alive1])
  have new: "heap s2 e2 =
     \<lparr>clientName = name, response = T2, podName = pod2, registry = True,
      connectedAt = now2, lastActivity = now2, heartbeatInterval = Some (nextTimer s1),
      eventCount = 0, isAlive = True\<rparr>"
    using heap_register_new [of now2 name T2 pod2 s1] by (simp add: s2 e2 n1)
  have tr: "endCalls (transports s2 T1) = Suc (endCalls (transports s1 T1))"
    by (simp add: s2 transports_register transports_evict_Some [OF g1 alive1] h1)
  have ent: "filter (\<lambda>kv. fst kv = name) (connections s2) = [(name, e2)]"
    by (simp add: s2 entries_register n1 e2)
  have g2: "get name s2 = Some e2"
    by (simp add: s2 get_register n1 e2)
  have cnt: "count s2 = 1" if "connections s = []"
  proof -
    have "connections s1 = [(name, e1)]"
      using that by (simp add: s1 e1 connections_register connections_evict_single)
    then have "connections (evict name s1) = []"
      by (simp add: connections_evict_single)
    then show ?thesis
      by (simp add: s2 count_def connections_register)
  qed
  show ?thesis
    using cnt by (simp add: h1 g1 old new [unfolded e2] tr ent g2 e2)
qed

theorem register_twice_witness:
  "register 1000 ''A'' 7 ''local-pod'' (initial_state WriteTrue) = (0, one_client WriteTrue ''A'') \<and>
   register 2000 ''A'' 8 ''local-pod'' (one_client WriteTrue ''A'') =
     (1, snd (register 2000 ''A'' 8 ''local-pod'' (one_client WriteTrue ''A''))) \<and>
   connections (initial_state WriteTrue) = [] \<and>
   \<not> isAlive (heap (snd (register 2000 ''A'' 8 ''local-pod'' (one_client WriteTrue ''A''))) 0) \<and>
   endCalls (transports (snd (register 2000 ''A'' 8 ''local-pod'' (one_client WriteTrue ''A''))) 7) = 1 \<and>
   count (snd (register 2000 ''A'' 8 ''local-pod'' (one_client WriteTrue ''A''))) = 1 \<and>
   get ''A'' (snd (register 2000 ''A'' 8 ''local-pod'' (one_client WriteTrue ''A''))) = Some 1 \<and>
   response (heap (snd (register 2000 ''A'' 8 ''local-pod'' (one_client WriteTrue ''A''))) 1) = 8"
proof -
  let ?s0 = "initial_state WriteTrue"
  let ?s1 = "one_client WriteTrue ''A''"
  let ?s2 = "snd (register 2000 ''A'' 8 ''local-pod'' ?s1)"
  have r1: "register 1000 ''A'' 7 ''local-pod'' ?s0 = (0, ?s1)"
    using fst_register [of 1000 "''A''" 7 "''local-pod''" ?s0]
    by (simp add: one_client_def prod_eq_iff) (simp add: initial_state_def)
  have r2: "register 2000 ''A'' 8 ''local-pod'' ?s1 = (1, ?s2)"
    using fst_register [of 2000 "''A''" 8 "''local-pod''" ?s1]
    by (simp add: prod_eq_iff) (simp add: one_client_eq)
  have c0: "connections ?s0 = []"
    by (simp add: initial_state_def)
  have t1: "endCalls (transports ?s1 7) = 0"
    by (simp add: one_client_eq fresh_transport_def)
  from register_twice [OF r1 r2] r1 r2 c0 show ?thesis
    by (auto simp: t1)
qed

text \<open>
  C2, as amended. On a closed entry \<open>sendEvent\<close> returns false and leaves every entry,
  every response, the registry and the timers as they are; \<open>close\<close>, the heartbeat tick
  and \<open>cleanup\<close> change nothing at all; the two error listeners only print; and
  \<open>getStats\<close> reads. \<open>updateActivity\<close> has no guard: it leaves \<open>eventCount\<close>,
  \<open>isAlive\<close>, the responses, the registry and the timers alone, and nothing is said here
  about \<open>lastActivity\<close>.
\<close>

theorem closed_entry_operations:
  assumes "\<not> isAlive (heap s ref)"
  shows "fst (sendEvent now ref event s) = False \<and>
     heap (snd (sendEvent now ref event s)) = heap s \<and>
     transports (snd (sendEvent now ref event s)) = transports s \<and>
     connections (snd (sendEvent now ref event s)) = connections s \<and>
     timers (snd (sendEvent now ref event s)) = timers s \<and>
     close ref s = s \<and>
     heartbeat now ref s = s \<and>
     cleanup ref s = s \<and>
     onRequestError msg ref s =
       s\<lparr>console := console s @ [RequestError (clientName (heap s ref)) msg]\<rparr> \<and>
     onResponseError msg ref s =
       s\<lparr>console := console s @ [ResponseError (clientName (heap s ref)) msg]\<rparr> \<and>
     stats_isAlive (getStats now ref s) = False \<and>
     eventCount (heap (updateActivity now ref s) ref) = eventCount (heap s ref) \<and>
     isAlive (heap (updateActivity now ref s) ref) = isAlive (heap s ref) \<and>
     transports (updateActivity now ref s) = transports s \<and>
     connections (updateActivity now ref s) = connections s \<and>
     timers (updateActivity now ref s) = timers s"
  using assms
  by (simp add: sendEvent_def close_dead heartbeat_def cleanup_def onRequestError_def
      onResponseError_def getStats_def updateActivity_def update_entry_def console_log_def
      Let_def)

theorem closed_entry_operations_witness:
  "\<not> isAlive (heap (close 0 (one_client WriteTrue ''A'')) 0) \<and>
   fst (sendEvent 2000 0 (JObject [(''clientName'', JString ''A'')])
          (close 0 (one_client WriteTrue ''A''))) = False \<and>
   heartbeat 2000 0 (close 0 (one_client WriteTrue ''A'')) = close 0 (one_client WriteTrue ''A'') \<and>
   eventCount (heap (updateActivity 2000 0 (close 0 (one_client WriteTrue ''A''))) 0) = 0"
proof -
  let ?s = "close 0 (one_client WriteTrue ''A'')"
  have dead: "\<not> isAlive (heap ?s 0)"
    by (rule close_not_alive)
  have c: "eventCount (heap ?s 0) = 0"
    by (simp add: heap_close one_client_eq)
  from closed_entry_operations [OF dead, of 2000 "JObject [(''clientName'', JString ''A'')]"] dead
  show ?thesis
    by (simp add: c)
qed

text \<open>
  The claim as stated also covers \<open>updateActivity\<close>, which overwrites
  \<open>lastActivity\<close> of a closed entry: closed at activity time 1000, the entry shows 5000
  after \<open>updateActivity\<close> at 5000.
\<close>

theorem closed_entry_updateActivity_counterexample:
  "\<not> isAlive (heap (close 0 (one_client WriteTrue ''A'')) 0) \<and>
   lastActivity (heap (close 0 (one_client WriteTrue ''A'')) 0) = 1000 \<and>
   lastActivity (heap (updateActivity 5000 0 (close 0 (one_client WriteTrue ''A''))) 0) = 5000"
  by (simp add: close_not_alive heap_close one_client_eq updateActivity_def update_entry_def)

text \<open>
  C3. An alive entry that holds the registry (as every alive entry of a process that
  started empty does), and a \<open>write\<close> that returns false or throws: \<open>sendEvent\<close> returns false,
  the entry is dead afterwards (\<open>getStats\<close> says so at any later time), its interval is
  cleared and no longer running, \<open>end\<close> has been called on its response, and the
  registry has no entry under its name.
\<close>

theorem sendEvent_write_failure:
  assumes "isAlive (heap s ref)"
    and "registry (heap s ref)"
    and "writeOutcome (transports s (response (heap s ref)))
           (length (writeCalls (transports s (response (heap s ref))))) \<noteq> WriteTrue"
  shows "fst (sendEvent now ref event s) = False \<and>
     \<not> isAlive (heap (snd (sendEvent now ref event s)) ref) \<and>
     stats_isAlive (getStats later ref (snd (sendEvent now ref event s))) = False \<and>
     heartbeatInterval (heap (snd (sendEvent now ref event s)) ref) = None \<and>
     (case heartbeatInterval (heap s ref) of
        None \<Rightarrow> True
      | Some h \<Rightarrow> map_of (timers (snd (sendEvent now ref event s))) h = None \<and>
                  clearIntervalCalls (snd (sendEvent now ref event s)) =
                    clearIntervalCalls s @ [h]) \<and>
     endCalls (transports (snd (sendEvent now ref event s)) (response (heap s ref))) =
       Suc (endCalls (transports s (response (heap s ref)))) \<and>
     get (clientName (heap s ref)) (snd (sendEvent now ref event s)) = None \<and>
     has (clientName (heap s ref)) (snd (sendEvent now ref event s)) = False"
proof -
  from sendEvent_write_fails [OF assms(1,3), of now event] have
    eq: "sendEvent now ref event s =
     (False, close ref
        (s\<lparr>transports := (transports s)(response (heap s ref) :=
           (transports s (response (heap s ref)))
             \<lparr>writeCalls := writeCalls (transports s (response (heap s ref))) @ [DataFrame event]\<rparr>),
          console := console s @
            [write_failure_line (clientName (heap s ref))
               (writeOutcome (transports s (response (heap s ref)))
                  (length (writeCalls (transports s (response (heap s ref))))))]\<rparr>))"
    (is "_ = (False, close ref ?s1)") .
  have alive: "isAlive (heap ?s1 ref)" using assms(1) by simp
  show ?thesis
    using assms(2)
    by (simp add: eq getStats_def heap_close [OF alive] timers_close [OF alive]
        clears_close [OF alive] transports_close [OF alive] connections_close [OF alive]
        get_def has_def AList.delete_conv' split: option.splits)
qed

theorem sendEvent_write_failure_witness:
  "isAlive (heap (one_client WriteFalse ''A'') 0) \<and>
   registry (heap (one_client WriteFalse ''A'') 0) \<and>
   writeOutcome (transports (one_client WriteFalse ''A'') 7)
     (length (writeCalls (transports (one_client WriteFalse ''A'') 7))) \<noteq> WriteTrue \<and>
   get ''A'' (one_client WriteFalse ''A'') = Some 0 \<and>
   fst (sendEvent 2000 0 (JObject [(''clientName'', JString ''A'')])
          (one_client WriteFalse ''A'')) = False \<and>
   stats_isAlive (getStats 3000 0 (snd (sendEvent 2000 0 (JObject [(''clientName'', JString ''A'')])
          (one_client WriteFalse ''A'')))) = False \<and>
   get ''A'' (snd (sendEvent 2000 0 (JObject [(''clientName'', JString ''A'')])
          (one_client WriteFalse ''A''))) = None"
proof -
  let ?s = "one_client WriteFalse ''A''"
  have e: "response (heap ?s 0) = 7" "clientName (heap ?s 0) = ''A''"
    "get ''A'' ?s = Some 0"
    by (simp_all add: one_client_eq get_def)
  have h1: "isAlive (heap ?s 0)" and h2: "registry (heap ?s 0)"
    by (simp_all add: one_client_eq)
  have h3: "writeOutcome (transports ?s (response (heap ?s 0)))
              (length (writeCalls (transports ?s (response (heap ?s 0))))) \<noteq> WriteTrue"
    by (simp add: one_client_eq fresh_transport_def)
  from sendEvent_write_failure [OF h1 h2 h3, of 2000 "JObject [(''clientName'', JString ''A'')]" 3000]
    h1 h2 h3 show ?thesis
    by (auto simp: e)
qed

text \<open>
  C4. On a closed entry \<open>sendEvent\<close> returns false for every payload; nothing is
  written to the response and no field of any entry, nor the registry, nor a timer
  changes: the process differs only by the console line saying the connection is dead.
\<close>

theorem sendEvent_closed:
  "\<not> isAlive (heap s ref) \<Longrightarrow>
     sendEvent now ref event s =
       (False, s\<lparr>console := console s @ [CannotSend (clientName (heap s ref))]\<rparr>)"
  by (simp add: sendEvent_def console_log_def)

theorem sendEvent_closed_witness:
  "\<not> isAlive (heap (close 0 (one_client WriteTrue ''A'')) 0) \<and>
   sendEvent 2000 0 (JObject [(''clientName'', JString ''A'')]) (close 0 (one_client WriteTrue ''A'')) =
     (False, (close 0 (one_client WriteTrue ''A''))
        \<lparr>console := console (close 0 (one_client WriteTrue ''A'')) @ [CannotSend ''A'']\<rparr>)"
proof -
  let ?s = "close 0 (one_client WriteTrue ''A'')"
  have dead: "\<not> isAlive (heap ?s 0)"
    by (rule close_not_alive)
  have name: "clientName (heap ?s 0) = ''A''"
    by (simp add: heap_close one_client_eq)
  from sendEvent_closed [OF dead, of 2000 "JObject [(''clientName'', JString ''A'')]"] dead
  show ?thesis by (simp add: name)
qed

text \<open>
  C5. \<open>close\<close> is idempotent: calling it \<open>N > 1\<close> times leaves the process exactly as
  one call does, and a second call changes nothing. Over all the calls the interval is
  cleared once (when the entry was alive and had one), \<open>end\<close> is called once on the
  response, and the entry's name is deleted from the registry once.
\<close>

theorem close_idempotent:
  "1 < N \<Longrightarrow>
     (close ref ^^ N) s = close ref s \<and>
     close ref (close ref s) = close ref s \<and>
     clearIntervalCalls ((close ref ^^ N) s) =
       clearIntervalCalls s @
         (if isAlive (heap s ref)
          then (case heartbeatInterval (heap s ref) of None \<Rightarrow> [] | Some h \<Rightarrow> [h])
          else []) \<and>
     endCalls (transports ((close ref ^^ N) s) (response (heap s ref))) =
       endCalls (transports s (response (heap s ref))) + (if isAlive (heap s ref) then 1 else 0) \<and>
     connections ((close ref ^^ N) s) =
       (if isAlive (heap s ref) \<and> registry (heap s ref)
        then AList.delete (clientName (heap s ref)) (connections s)
        else connections s)"
proof -
  assume "1 < N"
  then have pow: "(close ref ^^ N) s = close ref s"
    by (simp add: close_funpow)
  show ?thesis
  proof (cases "isAlive (heap s ref)")
    case True
    then show ?thesis
      unfolding pow
      by (simp add: close_close clears_close transports_close connections_close)
  next
    case False
    then show ?thesis
      unfolding pow by (simp add: close_dead)
  qed
qed

theorem close_idempotent_witness:
  "(1::nat) < 3 \<and>
   (close 0 ^^ 3) (one_client WriteTrue ''A'') = close 0 (one_client WriteTrue ''A'') \<and>
   clearIntervalCalls ((close 0 ^^ 3) (one_client WriteTrue ''A'')) = [0] \<and>
   endCalls (transports ((close 0 ^^ 3) (one_client WriteTrue ''A'')) 7) = 1 \<and>
   connections ((close 0 ^^ 3) (one_client WriteTrue ''A'')) = []"
proof -
  let ?s = "one_client WriteTrue ''A''"
  have a: "isAlive (heap ?s 0)" "heartbeatInterval (heap ?s 0) = Some 0"
    "response (heap ?s 0) = 7" "registry (heap ?s 0)" "clientName (heap ?s 0) = ''A''"
    "clearIntervalCalls ?s = []" "endCalls (transports ?s 7) = 0" "connections ?s = [(''A'', 0)]"
    by (simp_all add: one_client_eq fresh_transport_def)
  have "(1::nat) < 3" by simp
  from close_idempotent [OF this, of 0 ?s] show ?thesis
    by (auto simp: a simp del: funpow.simps)
qed

text \<open>
  C6. \<open>handleMessage\<close> never throws. When the parser throws, when it returns \<open>null\<close>,
  and when it returns a value without a \<open>clientName\<close> property (an object lacking it, or
  a boolean, number, string or array), the message is dropped: the process differs only by
  two console lines, which do not depend on the registry.
\<close>

theorem handleMessage_drops_invalid:
  "fst (handleMessage JSON_parse now channel message s) = None \<and>
   (JSON_parse message = Inl err \<longrightarrow>
      handleMessage JSON_parse now channel message s =
        (None, s\<lparr>console := console s @ [Received channel message, HandlingError err]\<rparr>)) \<and>
   (JSON_parse message = Inr JNull \<longrightarrow>
      handleMessage JSON_parse now channel message s =
        (None, s\<lparr>console := console s @
           [Received channel message,
            HandlingError
              (''Cannot read properties of null (reading '' @ quoted ''clientName'' @ '')'')]\<rparr>)) \<and>
   (JSON_parse message = Inr event \<and> read_prop ''clientName'' event = Inr None \<longrightarrow>
      handleMessage JSON_parse now channel message s =
        (None, s\<lparr>console := console s @ [Received channel message, InvalidMessage]\<rparr>))"
  by (simp add: handleMessage_returns)
     (simp add: handleMessage_def handleMessage_try_def console_log_def truthy_opt_def Let_def)

theorem handleMessage_drops_invalid_witness:
  "parse_example ''not json'' = Inl ''Unexpected token'' \<and>
   handleMessage parse_example 2000 ''events'' ''not json'' (one_client WriteTrue ''A'') =
     (None, (one_client WriteTrue ''A'')
        \<lparr>console := console (one_client WriteTrue ''A'') @
           [Received ''events'' ''not json'', HandlingError ''Unexpected token'']\<rparr>) \<and>
   parse_example ''null'' = Inr JNull \<and>
   handleMessage parse_example 2000 ''events'' ''null'' (one_client WriteTrue ''A'') =
     (None, (one_client WriteTrue ''A'')
        \<lparr>console := console (one_client WriteTrue ''A'') @
           [Received ''events'' ''null'',
            HandlingError
              (''Cannot read properties of null (reading '' @ quoted ''clientName'' @ '')'')]\<rparr>) \<and>
   parse_example ''{action:x}'' = Inr (JObject [(''action'', JString ''x'')]) \<and>
   read_prop ''clientName'' (JObject [(''action'', JString ''x'')]) = Inr None \<and>
   handleMessage parse_example 2000 ''events'' ''{action:x}'' (one_client WriteTrue ''A'') =
     (None, (one_client WriteTrue ''A'')
        \<lparr>console := console (one_client WriteTrue ''A'') @
           [Received ''events'' ''{action:x}'', InvalidMessage]\<rparr>)"
proof -
  have p: "parse_example ''not json'' = Inl ''Unexpected token''"
    "parse_example ''null'' = Inr JNull"
    "parse_example ''{action:x}'' = Inr (JObject [(''action'', JString ''x'')])"
    "read_prop ''clientName'' (JObject [(''action'', JString ''x'')]) = Inr None"
    by (simp_all add: parse_example_def)
  from handleMessage_drops_invalid
         [of parse_example 2000 "''events''" "''not json''" "one_client WriteTrue ''A''"
             "''Unexpected token''" JNull]
       handleMessage_drops_invalid
         [of parse_example 2000 "''events''" "''null''" "one_client WriteTrue ''A''"
             "''Unexpected token''" JNull]
       handleMessage_drops_invalid
         [of parse_example 2000 "''events''" "''{action:x}''" "one_client WriteTrue ''A''"
             "''Unexpected token''" "JObject [(''action'', JString ''x'')]"]
  show ?thesis
    by (simp add: p)
qed

text \<open>
  C7. A record whose \<open>clientName\<close> is a string that is no key of the registry:
  \<open>routeToClient\<close> returns without throwing and only prints; so does \<open>handleMessage\<close>
  on a message that parses to such a record with a non-empty name. Entries, registry,
  responses, timers and the count are unchanged.
\<close>

theorem route_absent_target:
  assumes "read_prop ''clientName'' event = Inr (Some (JString name))"
    and "get name s = None"
  shows "routeToClient now event s =
       (None, s\<lparr>console := console s @ [NotOnThisPod (Some (JString name))]\<rparr>) \<and>
     (JSON_parse message = Inr event \<and> name \<noteq> [] \<longrightarrow>
        handleMessage JSON_parse now channel message s =
          (None, s\<lparr>console := console s @
             [Received channel message, NotOnThisPod (Some (JString name))]\<rparr>)) \<and>
     heap (snd (routeToClient now event s)) = heap s \<and>
     connections (snd (routeToClient now event s)) = connections s \<and>
     transports (snd (routeToClient now event s)) = transports s \<and>
     timers (snd (routeToClient now event s)) = timers s \<and>
     count (snd (routeToClient now event s)) = count s"
proof -
  have r: "routeToClient now event s' =
       (None, s'\<lparr>console := console s' @ [NotOnThisPod (Some (JString name))]\<rparr>)"
    if "get name s' = None" for s'
    using assms(1) that by (rule routeToClient_unknown)
  have g: "get name (console_log l s) = None" for l
    using assms(2) by (simp add: get_def console_log_def)
  show ?thesis
    using assms(1)
    by (simp add: r [OF assms(2)] r [OF g] count_def handleMessage_def handleMessage_try_def
        truthy_opt_def Let_def)
       (simp add: console_log_def)
qed

theorem route_absent_target_witness:
  "read_prop ''clientName'' (JObject [(''clientName'', JString ''B''), (''action'', JString ''x'')]) =
     Inr (Some (JString ''B'')) \<and>
   get ''B'' (one_client WriteTrue ''A'') = None \<and> ''B'' \<noteq> [] \<and>
   parse_example ''{clientName:B,action:x}'' =
     Inr (JObject [(''clientName'', JString ''B''), (''action'', JString ''x'')]) \<and>
   handleMessage parse_example 2000 ''events'' ''{clientName:B,action:x}''
       (one_client WriteTrue ''A'') =
     (None, (one_client WriteTrue ''A'')
        \<lparr>console := console (one_client WriteTrue ''A'') @
           [Received ''events'' ''{clientName:B,action:x}'',
            NotOnThisPod (Some (JString ''B''))]\<rparr>) \<and>
   count (snd (routeToClient 2000
       (JObject [(''clientName'', JString ''B''), (''action'', JString ''x'')])
       (one_client WriteTrue ''A''))) = 1"
proof -
  let ?s = "one_client WriteTrue ''A''"
  let ?ev = "JObject [(''clientName'', JString ''B''), (''action'', JString ''x'')]"
  have h1: "read_prop ''clientName'' ?ev = Inr (Some (JString ''B''))"
    by simp
  have h2: "get ''B'' ?s = None"
    by (simp add: one_client_eq get_def)
  have p: "parse_example ''{clientName:B,action:x}'' = Inr ?ev"
    by (simp add: parse_example_def)
  have c: "count ?s = 1"
    by (simp add: one_client_eq count_def)
  from route_absent_target [OF h1 h2, of 2000 parse_example
      "''{clientName:B,action:x}''" "''events''"] h1 h2 p
  show ?thesis
    by (auto simp: c)
qed

text \<open>
  C8. The claim: an alive entry whose \<open>write\<close> returns true gets \<open>eventCount\<close> plus
  one, the activity time of the call, stays alive and registered, and \<open>sendEvent\<close>
  returns true. The code at the record \<open>unprintable_record\<close>, which the router delivers
  to the alive entry registered under \<open>A\<close>: the frame is written and the write returns
  true, the counter becomes 1 and the activity time 2000, and then the log line of the
  success throws while it converts \<open>action\<close> to a string; \<open>sendEvent\<close> returns false,
  the entry is closed and its name is gone from the registry, also when the record comes
  in through \<open>handleMessage\<close>.
\<close>

theorem sendEvent_unprintable_action:
  "isAlive (heap (one_client WriteTrue ''A'') 0) \<and>
   get ''A'' (one_client WriteTrue ''A'') = Some 0 \<and>
   writeOutcome (transports (one_client WriteTrue ''A'') 7)
     (length (writeCalls (transports (one_client WriteTrue ''A'') 7))) = WriteTrue \<and>
   fst (sendEvent 2000 0 unprintable_record (one_client WriteTrue ''A'')) = False \<and>
   writeCalls (transports (snd (sendEvent 2000 0 unprintable_record
       (one_client WriteTrue ''A''))) 7) = [DataFrame unprintable_record] \<and>
   eventCount (heap (snd (sendEvent 2000 0 unprintable_record
       (one_client WriteTrue ''A''))) 0) = 1 \<and>
   lastActivity (heap (snd (sendEvent 2000 0 unprintable_record
       (one_client WriteTrue ''A''))) 0) = 2000 \<and>
   \<not> isAlive (heap (snd (sendEvent 2000 0 unprintable_record
       (one_client WriteTrue ''A''))) 0) \<and>
   get ''A'' (snd (sendEvent 2000 0 unprintable_record (one_client WriteTrue ''A''))) = None \<and>
   parse_unprintable ''{clientName:A,action:{toString:0}}'' = Inr unprintable_record \<and>
   fst (handleMessage parse_unprintable 2000 ''events'' ''{clientName:A,action:{toString:0}}''
          (one_client WriteTrue ''A'')) = None \<and>
   \<not> isAlive (heap (snd (handleMessage parse_unprintable 2000 ''events''
       ''{clientName:A,action:{toString:0}}'' (one_client WriteTrue ''A''))) 0) \<and>
   get ''A'' (snd (handleMessage parse_unprintable 2000 ''events''
       ''{clientName:A,action:{toString:0}}'' (one_client WriteTrue ''A''))) = None"
proof -
  let ?s = "one_client WriteTrue ''A''"
  let ?m = "''{clientName:A,action:{toString:0}}''"
  have e: "isAlive (heap ?s 0)" "get ''A'' ?s = Some 0"
    "writeOutcome (transports ?s 7) (length (writeCalls (transports ?s 7))) = WriteTrue"
    by (simp_all add: one_client_eq fresh_transport_def get_def)
  have send: "sendEvent 2000 0 unprintable_record s' =
      (False, close 0
         (s'\<lparr>transports := (transports s')(7 := (transports s' 7)
               \<lparr>writeCalls := writeCalls (transports s' 7) @ [DataFrame unprintable_record]\<rparr>),
             heap := (heap s')(0 := (heap s' 0)\<lparr>eventCount := 1, lastActivity := 2000\<rparr>),
             console := console s' @ [WriteError ''A'' cannot_convert]\<rparr>))"
    if "heap s' = heap ?s" and "transports s' = transports ?s" for s'
    using that
    by (simp add: sendEvent_def response_write_def update_entry_def console_log_def Let_def
        unprintable_record_def one_client_eq fresh_transport_def)
  have after: "\<not> isAlive (heap (close 0 s') 0) \<and> get ''A'' (close 0 s') = None \<and>
      eventCount (heap (close 0 s') 0) = 1 \<and> lastActivity (heap (close 0 s') 0) = 2000 \<and>
      writeCalls (transports (close 0 s') 7) = [DataFrame unprintable_record]"
    if "heap s' 0 = (heap ?s 0)\<lparr>eventCount := 1, lastActivity := 2000\<rparr>"
      and "transports s' 7 =
        (transports ?s 7)\<lparr>writeCalls := [DataFrame unprintable_record]\<rparr>"
    for s'
  proof -
    have alive: "isAlive (heap s' 0)"
      using that(1) by (simp add: one_client_eq)
    show ?thesis
      using that
      by (simp add: heap_close [OF alive] connections_close [OF alive]
          transports_close [OF alive] get_def AList.delete_conv' one_client_eq)
  qed
  have direct: "fst (sendEvent 2000 0 unprintable_record ?s) = False"
    "\<not> isAlive (heap (snd (sendEvent 2000 0 unprintable_record ?s)) 0)"
    "get ''A'' (snd (sendEvent 2000 0 unprintable_record ?s)) = None"
    "eventCount (heap (snd (sendEvent 2000 0 unprintable_record ?s)) 0) = 1"
    "lastActivity (heap (snd (sendEvent 2000 0 unprintable_record ?s)) 0) = 2000"
    "writeCalls (transports (snd (sendEvent 2000 0 unprintable_record ?s)) 7) =
       [DataFrame unprintable_record]"
    using after
      [of "?s\<lparr>transports := (transports ?s)(7 := (transports ?s 7)
               \<lparr>writeCalls := writeCalls (transports ?s 7) @ [DataFrame unprintable_record]\<rparr>),
             heap := (heap ?s)(0 := (heap ?s 0)\<lparr>eventCount := 1, lastActivity := 2000\<rparr>),
             console := console ?s @ [WriteError ''A'' cannot_convert]\<rparr>"]
    by (simp_all add: send one_client_eq fresh_transport_def)
  have p: "parse_unprintable ?m = Inr unprintable_record"
    by (simp add: parse_unprintable_def)
  let ?r = "console_log (Received ''events'' ?m) ?s"
  have sr: "heap ?r = heap ?s" "transports ?r = transports ?s" "get ''A'' ?r = Some 0"
    by (simp_all add: console_log_def get_def one_client_eq)
  have rp: "read_prop ''clientName'' unprintable_record = Inr (Some (JString ''A''))"
    by (simp add: unprintable_record_def)
  have hk: "has_key (Some (JString ''A'')) ?r" "get_key (Some (JString ''A'')) ?r = Some 0"
    using sr(3) by (simp_all add: has_key_def get_key_def has_def get_def)
  have route: "routeToClient 2000 unprintable_record ?r =
      (None, console_log (SendFailed (Some (JString ''A'')))
               (snd (sendEvent 2000 0 unprintable_record ?r)))"
    by (simp add: routeToClient_def rp hk send [OF sr(1,2)])
  have routed: "snd (handleMessage parse_unprintable 2000 ''events'' ?m ?s) =
      console_log (SendFailed (Some (JString ''A'')))
        (snd (sendEvent 2000 0 unprintable_record ?r))"
    by (simp add: handleMessage_def handleMessage_try_def p rp truthy_opt_def Let_def route)
  define t where "t = ?r\<lparr>transports := (transports ?r)(7 := (transports ?r 7)
               \<lparr>writeCalls := writeCalls (transports ?r 7) @ [DataFrame unprintable_record]\<rparr>),
             heap := (heap ?r)(0 := (heap ?r 0)\<lparr>eventCount := 1, lastActivity := 2000\<rparr>),
             console := console ?r @ [WriteError ''A'' cannot_convert]\<rparr>"
  have a1: "heap t 0 = (heap ?s 0)\<lparr>eventCount := 1, lastActivity := 2000\<rparr>"
    by (simp add: t_def sr(1))
  have a2: "transports t 7 =
      (transports ?s 7)\<lparr>writeCalls := [DataFrame unprintable_record]\<rparr>"
    by (simp add: t_def console_log_def one_client_eq fresh_transport_def)
  have cl: "heap (console_log l x) = heap x" "get n (console_log l x) = get n x" for l x n
    by (simp_all add: console_log_def get_def)
  have snd_eq: "snd (sendEvent 2000 0 unprintable_record ?r) = close 0 t"
    by (simp only: send [OF sr(1,2)] snd_conv t_def)
  have via: "\<not> isAlive (heap (snd (handleMessage parse_unprintable 2000 ''events'' ?m ?s)) 0)"
    "get ''A'' (snd (handleMessage parse_unprintable 2000 ''events'' ?m ?s)) = None"
    unfolding routed snd_eq cl
    by (rule after [OF a1 a2, THEN conjunct1])
       (rule after [OF a1 a2, THEN conjunct2, THEN conjunct1])
  from e direct p via show ?thesis
    by (simp add: handleMessage_returns)
qed

text \<open>
  C9. With the constructor's cap of 10 attempts, attempts 1 to 10 get the delay
  \<open>min (attempt * 100) 2000\<close> and every attempt beyond 10 gets \<open>null\<close>.
\<close>

theorem retryStrategy_policy:
  "(1 \<le> t \<and> t \<le> 10 \<longrightarrow>
      fst (retryStrategy new_RedisSubscriber t s) = Some (min (t * 100) 2000)) \<and>
   (10 < t \<longrightarrow> fst (retryStrategy new_RedisSubscriber t s) = None)"
  by (simp add: retryStrategy_def new_RedisSubscriber_def Let_def)

theorem retryStrategy_policy_witness:
  "fst (retryStrategy new_RedisSubscriber 3 (initial_state WriteTrue)) = Some 300 \<and>
   fst (retryStrategy new_RedisSubscriber 10 (initial_state WriteTrue)) = Some 1000 \<and>
   fst (retryStrategy new_RedisSubscriber 11 (initial_state WriteTrue)) = None"
  using retryStrategy_policy [of 3 "initial_state WriteTrue"]
    retryStrategy_policy [of 10 "initial_state WriteTrue"]
    retryStrategy_policy [of 11 "initial_state WriteTrue"]
  by simp

text \<open>
  C10. A parsed record whose \<open>clientName\<close> is present and falsy (\<open>null\<close>, false, zero
  or the empty string) is dropped as invalid exactly as the empty record is, whatever the
  registry holds: no lookup is made, so an entry registered under the empty name gets
  nothing from the bus.
\<close>

theorem handleMessage_falsy_clientName:
  assumes "JSON_parse message = Inr event"
    and "read_prop ''clientName'' event = Inr (Some v)"
    and "\<not> truthy v"
  shows "handleMessage JSON_parse now channel message s =
       (None, s\<lparr>console := console s @ [Received channel message, InvalidMessage]\<rparr>) \<and>
     handleMessage JSON_parse now channel message s =
       handleMessage (\<lambda>m. Inr (JObject [])) now channel message s"
  using assms
  by (simp add: handleMessage_def handleMessage_try_def console_log_def truthy_opt_def Let_def)

theorem handleMessage_falsy_clientName_witness:
  "parse_example ''{clientName:}'' = Inr (JObject [(''clientName'', JString [])]) \<and>
   read_prop ''clientName'' (JObject [(''clientName'', JString [])]) = Inr (Some (JString [])) \<and>
   \<not> truthy (JString []) \<and>
   get [] (one_client WriteTrue []) = Some 0 \<and>
   isAlive (heap (one_client WriteTrue []) 0) \<and>
   handleMessage parse_example 2000 ''events'' ''{clientName:}'' (one_client WriteTrue []) =
     (None, (one_client WriteTrue [])
        \<lparr>console := console (one_client WriteTrue []) @
           [Received ''events'' ''{clientName:}'', InvalidMessage]\<rparr>)"
proof -
  let ?s = "one_client WriteTrue []"
  have h1: "parse_example ''{clientName:}'' = Inr (JObject [(''clientName'', JString [])])"
    by (simp add: parse_example_def)
  have h2: "read_prop ''clientName'' (JObject [(''clientName'', JString [])]) = Inr (Some (JString []))"
    by simp
  have h3: "\<not> truthy (JString [])"
    by simp
  have e: "get [] ?s = Some 0" "isAlive (heap ?s 0)"
    by (simp_all add: one_client_eq get_def)
  from handleMessage_falsy_clientName
         [of parse_example "''{clientName:}''" "JObject [(''clientName'', JString [])]"
             "JString []" 2000 "''events''" ?s, OF h1 h2 h3] h1 h2 e
  show ?thesis
    by simp
qed

end
